theory Spec2Isabelle
  imports Main "HOL-Library.Sublist"
begin

section \<open>JavaScript string helpers\<close>

text \<open>
  Strings are lists of 8-bit characters. Header values and the output of \<open>atob\<close> are
  byte strings in the platform, so nothing is lost for them; query parameters are
  modelled for code units below 256.
\<close>

text \<open>\<open>s.split(sep)\<close> for a one-character separator: the empty string gives one
  empty piece, and every separator starts a new piece.\<close>

fun split_on :: "char \<Rightarrow> string \<Rightarrow> string list" where
  "split_on sep [] = [[]]"
| "split_on sep (c # cs) =
     (if c = sep then [] # split_on sep cs
      else (case split_on sep cs of
              [] \<Rightarrow> [[c]]
            | p # ps \<Rightarrow> (c # p) # ps))"

text \<open>\<open>s.endsWith(t)\<close>.\<close>

definition endsWith :: "string \<Rightarrow> string \<Rightarrow> bool" where
  "endsWith s t = suffix t s"

text \<open>White space and line terminators removed by \<open>s.trim()\<close>, among the code
  units below 256: TAB, LF, VT, FF, CR, SPACE and NBSP.\<close>

definition is_js_space :: "char \<Rightarrow> bool" where
  "is_js_space c = ((of_char c :: nat) \<in> {9, 10, 11, 12, 13, 32, 160})"

definition trim :: "string \<Rightarrow> string" where
  "trim s = rev (dropWhile is_js_space (rev (dropWhile is_js_space s)))"

text \<open>JavaScript truthiness of an optional string: \<open>undefined\<close>, \<open>null\<close> and
  the empty string are falsy.\<close>

fun truthy :: "string option \<Rightarrow> bool" where
  "truthy None = False"
| "truthy (Some s) = (s \<noteq> [])"

text \<open>\<open>a || b\<close> on optional strings.\<close>

definition js_or :: "string option \<Rightarrow> string option \<Rightarrow> string option" where
  "js_or a b = (if truthy a then a else b)"

section \<open>The domain regular expression\<close>

text \<open>
  \<open>hostname.replace(/.*?([^.]+\.[^.]+)$/, "$1")\<close>. The expression has no flags:
  \<open>.\<close> does not match a line terminator, \<open>$\<close> is the end of the input, and only the
  first match is replaced. The matcher tries start positions from the left, and at each
  one lets the lazy \<open>.*?\<close> consume as little as possible.
\<close>

definition is_line_terminator :: "char \<Rightarrow> bool" where
  "is_line_terminator c = ((of_char c :: nat) \<in> {10, 13})"

text \<open>\<open>[^.]+\.[^.]+$\<close> against the whole of \<open>t\<close>.\<close>

definition group_matches :: "string \<Rightarrow> bool" where
  "group_matches t =
     (takeWhile (\<lambda>c. c \<noteq> CHR ''.'') t \<noteq> [] \<and>
      (case dropWhile (\<lambda>c. c \<noteq> CHR ''.'') t of
         [] \<Rightarrow> False
       | _ # b \<Rightarrow> b \<noteq> [] \<and> CHR ''.'' \<notin> set b))"

text \<open>A match attempt at the start of \<open>t\<close>: the captured group, if any.\<close>

fun match_here :: "string \<Rightarrow> string option" where
  "match_here [] = None"
| "match_here (c # cs) =
     (if group_matches (c # cs) then Some (c # cs)
      else if is_line_terminator c then None
      else match_here cs)"

text \<open>The replacement: the text before the match, then the group; the string itself
  when nothing matches.\<close>

fun replace_domain :: "string \<Rightarrow> string" where
  "replace_domain [] = []"
| "replace_domain (c # cs) =
     (case match_here (c # cs) of
        Some g \<Rightarrow> g
      | None \<Rightarrow> c # replace_domain cs)"

section \<open>Base64 decoding\<close>

text \<open>
  \<open>atob\<close> is the platform's forgiving-base64 decode: ASCII white space is removed, one
  or two trailing \<open>=\<close> are dropped when the length is a multiple of four, a length of
  one modulo four or a character outside the alphabet is an error
  (\<open>InvalidCharacterError\<close>), and the remaining sextets are packed into bytes.
\<close>

definition is_ascii_whitespace :: "char \<Rightarrow> bool" where
  "is_ascii_whitespace c = ((of_char c :: nat) \<in> {9, 10, 12, 13, 32})"

definition b64_value :: "char \<Rightarrow> nat option" where
  "b64_value c =
     (let n = (of_char c :: nat) in
      if 65 \<le> n \<and> n \<le> 90 then Some (n - 65)
      else if 97 \<le> n \<and> n \<le> 122 then Some (n - 71)
      else if 48 \<le> n \<and> n \<le> 57 then Some (n + 4)
      else if n = 43 then Some 62
      else if n = 47 then Some 63
      else None)"

fun b64_values :: "string \<Rightarrow> nat list option" where
  "b64_values [] = Some []"
| "b64_values (c # cs) =
     (case b64_value c of
        None \<Rightarrow> None
      | Some v \<Rightarrow> (case b64_values cs of None \<Rightarrow> None | Some vs \<Rightarrow> Some (v # vs)))"

fun b64_bytes :: "nat list \<Rightarrow> string" where
  "b64_bytes (a # b # c # d # rest) =
     char_of (a * 4 + b div 16) # char_of ((b mod 16) * 16 + c div 4) #
     char_of ((c mod 4) * 64 + d) # b64_bytes rest"
| "b64_bytes [a, b, c] = [char_of (a * 4 + b div 16), char_of ((b mod 16) * 16 + c div 4)]"
| "b64_bytes [a, b] = [char_of (a * 4 + b div 16)]"
| "b64_bytes _ = []"

definition strip_padding :: "string \<Rightarrow> string" where
  "strip_padding s =
     (if length s mod 4 = 0 then
        (case rev s of
           x # y # r \<Rightarrow>
             (if x = CHR ''='' \<and> y = CHR ''='' then rev r
              else if x = CHR ''='' then rev (y # r)
              else s)
         | _ \<Rightarrow> s)
      else s)"

definition atob :: "string \<Rightarrow> string option" where
  "atob s =
     (let d = strip_padding (filter (\<lambda>c. \<not> is_ascii_whitespace c) s) in
      if length d mod 4 = 1 then None
      else (case b64_values d of None \<Rightarrow> None | Some vs \<Rightarrow> Some (b64_bytes vs)))"

section \<open>Errors\<close>

text \<open>
  The exceptions that reach the top-level handler: the two classes of the repository,
  and the \<open>DOMException\<close> that \<open>atob\<close> throws, which has a message but neither
  \<open>status\<close> nor \<open>statusText\<close>.
\<close>

datatype exn =
    BadRequestException string
  | CloudflareApiException string nat
  | DOMException string

fun exn_message :: "exn \<Rightarrow> string" where
  "exn_message (BadRequestException reason) = reason"
| "exn_message (CloudflareApiException reason st) = reason"
| "exn_message (DOMException m) = m"

fun exn_status :: "exn \<Rightarrow> nat option" where
  "exn_status (BadRequestException reason) = Some 400"
| "exn_status (CloudflareApiException reason st) = Some st"
| "exn_status (DOMException m) = None"

fun exn_statusText :: "exn \<Rightarrow> string option" where
  "exn_statusText (BadRequestException reason) = Some ''Bad Request''"
| "exn_statusText (CloudflareApiException reason st) = Some ''Cloudflare API Error''"
| "exn_statusText (DOMException m) = None"

section \<open>The provider SDK\<close>

text \<open>
  The \<open>cloudflare\<close> package is outside the repository. It is a parameter of the model:
  four operations on a remote state \<open>'w\<close>, each of which returns a response or throws.
  What it throws is either an \<open>Error\<close> object (message, optional \<open>status\<close>) or some
  other value (optional \<open>status\<close>).
\<close>

datatype thrown = ErrorObject string "nat option" | OtherThrown "nat option"

fun thrown_status :: "thrown \<Rightarrow> nat option" where
  "thrown_status (ErrorObject m st) = st"
| "thrown_status (OtherThrown st) = st"

record CloudflareZone =
  zone_id :: string
  zone_name :: string

record CloudflareDnsRecord =
  rec_id :: string
  rec_zone_id :: string
  rec_type :: string
  rec_name :: string
  rec_content :: string
  rec_proxied :: bool
  rec_ttl :: nat

text \<open>An item of \<open>dns.records.list\<close>: the fields the client defaults may be missing.\<close>

record sdk_record =
  sr_id :: string
  sr_type :: "string option"
  sr_name :: string
  sr_content :: "string option"
  sr_proxied :: "bool option"
  sr_ttl :: "nat option"

text \<open>The parameters of \<open>dns.records.edit\<close> and the body of the access-group PUT.\<close>

record edit_params =
  ep_zone_id :: string
  ep_type :: string
  ep_name :: string
  ep_content :: string
  ep_ttl :: nat
  ep_proxied :: bool

record group_body =
  gb_name :: string
  gb_include :: "string list"

record 'w sdk =
  zones_list :: "string \<Rightarrow> 'w \<Rightarrow> (thrown + CloudflareZone list option) \<times> 'w"
  dns_records_list :: "string \<Rightarrow> string \<Rightarrow> 'w \<Rightarrow> (thrown + sdk_record list option) \<times> 'w"
  dns_records_edit :: "string \<Rightarrow> edit_params \<Rightarrow> 'w \<Rightarrow> (thrown + unit) \<times> 'w"
  put :: "string \<Rightarrow> group_body \<Rightarrow> 'w \<Rightarrow> (thrown + unit) \<times> 'w"

section \<open>CloudflareClient (cloudflare-client.ts)\<close>

text \<open>The \<open>catch\<close> blocks: \<open>error instanceof Error ? error.message : fallback\<close> and
  \<open>error?.status || 500\<close>.\<close>

definition normalize :: "string \<Rightarrow> thrown \<Rightarrow> exn" where
  "normalize fallback err =
     CloudflareApiException
       (case err of ErrorObject m st \<Rightarrow> m | OtherThrown st \<Rightarrow> fallback)
       (case thrown_status err of None \<Rightarrow> 500 | Some n \<Rightarrow> if n = 0 then 500 else n)"

definition CloudflareClient_findZone ::
  "'w sdk \<Rightarrow> string \<Rightarrow> 'w \<Rightarrow> (exn + CloudflareZone) \<times> 'w" where
  "CloudflareClient_findZone api name w =
     (case zones_list api name w of
        (Inl err, w') \<Rightarrow> (Inl (normalize ''Unknown error finding zone'' err), w')
      | (Inr result, w') \<Rightarrow>
          (case result of
             None \<Rightarrow> (Inl (CloudflareApiException (''Failed to find zone '' @ [CHR 0x27] @ name @ [CHR 0x27]) 404), w')
           | Some [] \<Rightarrow> (Inl (CloudflareApiException (''Failed to find zone '' @ [CHR 0x27] @ name @ [CHR 0x27]) 404), w')
           | Some (z # zs) \<Rightarrow> (Inr \<lparr>zone_id = zone_id z, zone_name = zone_name z\<rparr>, w')))"

definition CloudflareClient_findRecord ::
  "'w sdk \<Rightarrow> CloudflareZone \<Rightarrow> string \<Rightarrow> bool \<Rightarrow> 'w \<Rightarrow> (exn + CloudflareDnsRecord) \<times> 'w" where
  "CloudflareClient_findRecord api zone name isIPV4 w =
     (let recordType = (if isIPV4 then ''A'' else ''AAAA'') in
      case dns_records_list api (zone_id zone) recordType w of
        (Inl err, w') \<Rightarrow> (Inl (normalize ''Unknown error finding DNS record'' err), w')
      | (Inr result, w') \<Rightarrow>
          (case (case result of None \<Rightarrow> [] | Some rs \<Rightarrow> filter (\<lambda>r. sr_name r = name) rs) of
             [] \<Rightarrow> (Inl (CloudflareApiException (''Failed to find DNS record '' @ [CHR 0x27] @ name @ [CHR 0x27]) 404), w')
           | r # rs \<Rightarrow>
               (Inr \<lparr>rec_id = sr_id r,
                     rec_zone_id = zone_id zone,
                     rec_type = (case sr_type r of None \<Rightarrow> recordType | Some t \<Rightarrow> if t = [] then recordType else t),
                     rec_name = (if sr_name r \<noteq> [] then sr_name r else name),
                     rec_content = (case sr_content r of None \<Rightarrow> [] | Some c \<Rightarrow> c),
                     rec_proxied = (case sr_proxied r of None \<Rightarrow> False | Some b \<Rightarrow> b),
                     rec_ttl = (case sr_ttl r of None \<Rightarrow> 1 | Some t \<Rightarrow> if t = 0 then 1 else t)\<rparr>, w')))"

definition CloudflareClient_updateRecord ::
  "'w sdk \<Rightarrow> CloudflareDnsRecord \<Rightarrow> string \<Rightarrow> 'w \<Rightarrow> (exn + CloudflareDnsRecord) \<times> 'w" where
  "CloudflareClient_updateRecord api record val w =
     (case dns_records_edit api (rec_id record)
             \<lparr>ep_zone_id = rec_zone_id record,
              ep_type = rec_type record,
              ep_name = rec_name record,
              ep_content = val,
              ep_ttl = rec_ttl record,
              ep_proxied = rec_proxied record\<rparr> w of
        (Inl err, w') \<Rightarrow> (Inl (normalize ''Unknown error updating DNS record'' err), w')
      | (Inr response, w') \<Rightarrow>
          (Inr \<lparr>rec_id = rec_id record,
                rec_zone_id = rec_zone_id record,
                rec_type = rec_type record,
                rec_name = rec_name record,
                rec_content = val,
                rec_proxied = rec_proxied record,
                rec_ttl = rec_ttl record\<rparr>, w'))"

definition CloudflareClient_updateAccessGroup ::
  "'w sdk \<Rightarrow> string \<Rightarrow> string \<Rightarrow> string \<Rightarrow> 'w \<Rightarrow> (exn + unit) \<times> 'w" where
  "CloudflareClient_updateAccessGroup api account grp ip w =
     (case put api (''/accounts/'' @ account @ ''/access/groups/'' @ grp)
             \<lparr>gb_name = ''Local IP Address'', gb_include = [ip @ ''/32'']\<rparr> w of
        (Inl err, w') \<Rightarrow> (Inl (normalize ''Unknown error updating access group'' err), w')
      | (Inr response, w') \<Rightarrow> (Inr response, w'))"

text \<open>The object the handler works with: the four methods of a client.\<close>

record 'w client =
  findZone :: "string \<Rightarrow> 'w \<Rightarrow> (exn + CloudflareZone) \<times> 'w"
  findRecord :: "CloudflareZone \<Rightarrow> string \<Rightarrow> bool \<Rightarrow> 'w \<Rightarrow> (exn + CloudflareDnsRecord) \<times> 'w"
  updateRecord :: "CloudflareDnsRecord \<Rightarrow> string \<Rightarrow> 'w \<Rightarrow> (exn + CloudflareDnsRecord) \<times> 'w"
  updateAccessGroup :: "string \<Rightarrow> string \<Rightarrow> string \<Rightarrow> 'w \<Rightarrow> (exn + unit) \<times> 'w"

definition CloudflareClient :: "'w sdk \<Rightarrow> 'w client" where
  "CloudflareClient api =
     \<lparr>findZone = CloudflareClient_findZone api,
      findRecord = CloudflareClient_findRecord api,
      updateRecord = CloudflareClient_updateRecord api,
      updateAccessGroup = CloudflareClient_updateAccessGroup api\<rparr>"

section \<open>The orchestrator: updateDNSRecords\<close>

text \<open>\<open>name && hostname.endsWith(name) ? name : hostname.replace(...)\<close>.\<close>

definition domainName :: "string option \<Rightarrow> string \<Rightarrow> string" where
  "domainName name hostname =
     (case name of
        None \<Rightarrow> replace_domain hostname
      | Some n \<Rightarrow> if n \<noteq> [] \<and> endsWith hostname n then n else replace_domain hostname)"

text \<open>
  One iteration of the loop over the hostnames. \<open>zones\<close> is the \<open>Map\<close> of the call;
  the iteration returns it updated, or the exception that leaves the loop.
\<close>

definition update_hostname ::
  "'w client \<Rightarrow> bool \<Rightarrow> string \<Rightarrow> string option \<Rightarrow> (string \<rightharpoonup> CloudflareZone) \<Rightarrow> string \<Rightarrow> 'w
   \<Rightarrow> (exn + (string \<rightharpoonup> CloudflareZone)) \<times> 'w" where
  "update_hostname cloudflare isIPV4 ip name zones hostname w =
     (let d = domainName name hostname in
      case (case zones d of
              Some z \<Rightarrow> (Inr (z, zones), w)
            | None \<Rightarrow>
                (case findZone cloudflare d w of
                   (Inl e, w') \<Rightarrow> (Inl e, w')
                 | (Inr z, w') \<Rightarrow> (Inr (z, zones(d \<mapsto> z)), w'))) of
        (Inl e, w1) \<Rightarrow> (Inl e, w1)
      | (Inr (zone, zones1), w1) \<Rightarrow>
          (case findRecord cloudflare zone hostname isIPV4 w1 of
             (Inl e, w2) \<Rightarrow> (Inl e, w2)
           | (Inr record, w2) \<Rightarrow>
               (case updateRecord cloudflare record ip w2 of
                  (Inl e, w3) \<Rightarrow> (Inl e, w3)
                | (Inr updated, w3) \<Rightarrow> (Inr zones1, w3))))"

fun update_hostnames ::
  "'w client \<Rightarrow> bool \<Rightarrow> string \<Rightarrow> string option \<Rightarrow> (string \<rightharpoonup> CloudflareZone) \<Rightarrow> string list \<Rightarrow> 'w
   \<Rightarrow> (exn + unit) \<times> 'w" where
  "update_hostnames cloudflare isIPV4 ip name zones [] w = (Inr (), w)"
| "update_hostnames cloudflare isIPV4 ip name zones (hostname # rest) w =
     (case update_hostname cloudflare isIPV4 ip name zones hostname w of
        (Inl e, w') \<Rightarrow> (Inl e, w')
      | (Inr zones', w') \<Rightarrow> update_hostnames cloudflare isIPV4 ip name zones' rest w')"

definition updateDNSRecords ::
  "'w client \<Rightarrow> string list \<Rightarrow> string \<Rightarrow> string option \<Rightarrow> 'w \<Rightarrow> (exn + unit) \<times> 'w" where
  "updateDNSRecords cloudflare hostnames ip name w =
     update_hostnames cloudflare (CHR ''.'' \<in> set ip) ip name Map.empty hostnames w"

section \<open>The request handler\<close>

text \<open>
  A request after \<open>new URL(request.url)\<close>: the protocol, the path, the query
  parameters in order, and the headers under their lower-case names.
\<close>

record request =
  protocol :: string
  pathname :: string
  searchParams :: "(string \<times> string) list"
  headers :: "(string \<times> string) list"

record env =
  DDNS_TOKEN :: string
  ACCOUNT_ID :: "string option"
  ACCESS_GROUP_ID :: "string option"

record response =
  status :: nat
  statusText :: string
  body :: "string option"
  response_headers :: "(string \<times> string) list"

record AuthCredentials =
  username :: "string option"
  password :: "string option"

definition param :: "request \<Rightarrow> string \<Rightarrow> string option" where
  "param req k = map_of (searchParams req) k"

definition header :: "request \<Rightarrow> string \<Rightarrow> string option" where
  "header req k = map_of (headers req) k"

text \<open>The regular expression \<open>/[\0-\x1F\x7F]/\<close>.\<close>

definition is_control :: "char \<Rightarrow> bool" where
  "is_control c = ((of_char c :: nat) \<le> 31 \<or> (of_char c :: nat) = 127)"

text \<open>
  \<open>const [, data] = authorization.split(" ")\<close>: a missing second piece is
  \<open>undefined\<close>, which \<open>atob\<close> reads as the string \<open>undefined\<close>.
\<close>

definition credential_payload :: "string \<Rightarrow> string" where
  "credential_payload authorization =
     (case split_on CHR '' '' authorization of
        _ # d # _ \<Rightarrow> d
      | _ \<Rightarrow> ''undefined'')"

text \<open>\<open>parseBasicAuth\<close>. The text of the \<open>DOMException\<close> is the platform's; the
  model carries the name of the error.\<close>

definition parseBasicAuth :: "request \<Rightarrow> exn + AuthCredentials" where
  "parseBasicAuth req =
     (case header req ''authorization'' of
        None \<Rightarrow> Inr \<lparr>username = None, password = None\<rparr>
      | Some authorization \<Rightarrow>
          if authorization = [] then Inr \<lparr>username = None, password = None\<rparr>
          else
            (let data = credential_payload authorization
             in case atob data of
                  None \<Rightarrow> Inl (DOMException ''InvalidCharacterError'')
                | Some decoded \<Rightarrow>
                    if CHR '':'' \<notin> set decoded \<or> filter is_control decoded \<noteq> []
                    then Inl (BadRequestException ''Invalid authorization value.'')
                    else Inr \<lparr>username = Some (takeWhile (\<lambda>c. c \<noteq> CHR '':'') decoded),
                              password = Some (tl (dropWhile (\<lambda>c. c \<noteq> CHR '':'') decoded))\<rparr>))"

text \<open>The hostname and address lists: \<open>(a || b || c)?.split(",")\<close>.\<close>

definition resolve_hostnames :: "request \<Rightarrow> string list option" where
  "resolve_hostnames req =
     map_option (split_on CHR '','')
       (js_or (js_or (param req ''hostname'') (param req ''host'')) (param req ''domains''))"

definition resolve_ips :: "request \<Rightarrow> string list option" where
  "resolve_ips req =
     map_option (split_on CHR '','')
       (js_or (js_or (js_or (param req ''ips'') (param req ''ip'')) (param req ''myip''))
          (header req ''cf-connecting-ip''))"

text \<open>One iteration of the loop over the addresses.\<close>

definition update_ip ::
  "'w client \<Rightarrow> string list \<Rightarrow> string option \<Rightarrow> string option \<Rightarrow> string option \<Rightarrow> string \<Rightarrow> 'w
   \<Rightarrow> (exn + unit) \<times> 'w" where
  "update_ip cloudflare hostnames name accountId accessGroupId ip w =
     (case updateDNSRecords cloudflare hostnames (trim ip) name w of
        (Inl e, w') \<Rightarrow> (Inl e, w')
      | (Inr u, w') \<Rightarrow>
          (case (accountId, accessGroupId) of
             (Some a, Some g) \<Rightarrow>
               if a \<noteq> [] \<and> g \<noteq> [] then updateAccessGroup cloudflare a g ip w'
               else (Inr (), w')
           | _ \<Rightarrow> (Inr (), w')))"

fun update_ips ::
  "'w client \<Rightarrow> string list \<Rightarrow> string option \<Rightarrow> string option \<Rightarrow> string option \<Rightarrow> string list \<Rightarrow> 'w
   \<Rightarrow> (exn + unit) \<times> 'w" where
  "update_ips cloudflare hostnames name accountId accessGroupId [] w = (Inr (), w)"
| "update_ips cloudflare hostnames name accountId accessGroupId (ip # rest) w =
     (case update_ip cloudflare hostnames name accountId accessGroupId ip w of
        (Inl e, w') \<Rightarrow> (Inl e, w')
      | (Inr u, w') \<Rightarrow> update_ips cloudflare hostnames name accountId accessGroupId rest w')"

definition good_response :: response where
  "good_response =
     \<lparr>status = 200, statusText = [], body = Some ''good'',
      response_headers = [(''Content-Type'', ''text/plain;charset=UTF-8''),
                          (''Cache-Control'', ''no-store'')]\<rparr>"

text \<open>
  \<open>handleRequest\<close> of \<open>index.ts\<close>. \<open>new_client\<close> is the constructor of the client
  class, applied to the token; for \<open>index.ts\<close> it is \<open>new_CloudflareClient\<close> below.
\<close>

definition handleRequest ::
  "(string \<Rightarrow> 'w client) \<Rightarrow> request \<Rightarrow> env \<Rightarrow> 'w \<Rightarrow> (exn + response) \<times> 'w" where
  "handleRequest new_client req e w =
     (if pathname req = ''/favicon.ico'' \<or> pathname req = ''/robots.txt''
      then (Inr \<lparr>status = 204, statusText = [], body = None, response_headers = []\<rparr>, w)
      else if \<not> endsWith (pathname req) ''/update''
      then (Inr \<lparr>status = 404, statusText = [], body = Some ''Not Found.'', response_headers = []\<rparr>, w)
      else if header req ''authorization'' = None \<and> param req ''token'' = None
      then (Inr \<lparr>status = 404, statusText = [], body = Some ''Not Found.'', response_headers = []\<rparr>, w)
      else
        (case parseBasicAuth req of
           Inl ex \<Rightarrow> (Inl ex, w)
         | Inr creds \<Rightarrow>
             (let token = js_or (password creds) (param req ''token'');
                  hostnames = resolve_hostnames req;
                  accountId = js_or (param req ''account'') (ACCOUNT_ID e);
                  accessGroupId = js_or (param req ''group'') (ACCESS_GROUP_ID e);
                  ips = resolve_ips req
              in case (hostnames, ips) of
                   (Some (h # hs), Some (i # is)) \<Rightarrow>
                     (let cloudflare = new_client (case js_or token (Some (DDNS_TOKEN e)) of
                                                     None \<Rightarrow> [] | Some t \<Rightarrow> t)
                      in case update_ips cloudflare (h # hs) (username creds) accountId accessGroupId (i # is) w of
                           (Inl ex, w') \<Rightarrow> (Inl ex, w')
                         | (Inr u, w') \<Rightarrow> (Inr good_response, w'))
                 | _ \<Rightarrow> (Inl (BadRequestException
                              ''You must specify both hostname(s) and IP address(es)''), w))))"

definition new_CloudflareClient :: "(string \<Rightarrow> 'w sdk) \<Rightarrow> string \<Rightarrow> 'w client" where
  "new_CloudflareClient new_sdk token = CloudflareClient (new_sdk token)"

text \<open>
  The JavaScript variant of the handler calls \<open>requireHttps\<close> first; the statements
  after that call are those of \<open>handleRequest\<close> above, with the client class of
  \<open>cloudflare.js\<close>, which has the same four methods.
\<close>

definition requireHttps :: "request \<Rightarrow> exn + unit" where
  "requireHttps req =
     (if protocol req \<noteq> ''https:'' \<or> header req ''x-forwarded-proto'' \<noteq> Some ''https''
      then Inl (BadRequestException ''Please use a HTTPS connection.'')
      else Inr ())"

definition handleRequest_js ::
  "(string \<Rightarrow> 'w client) \<Rightarrow> request \<Rightarrow> env \<Rightarrow> 'w \<Rightarrow> (exn + response) \<times> 'w" where
  "handleRequest_js new_client req e w =
     (case requireHttps req of
        Inl ex \<Rightarrow> (Inl ex, w)
      | Inr u \<Rightarrow> handleRequest new_client req e w)"

text \<open>
  The \<open>catch\<close> of \<open>fetch\<close>: \<open>err.reason\<close> is never set, so the body is
  \<open>err.message || "Unknown Error"\<close>; \<open>err.status || 500\<close>;
  \<open>err.statusText || "Internal Server Error"\<close>.
\<close>

definition error_response :: "exn \<Rightarrow> response" where
  "error_response err =
     \<lparr>status = (case exn_status err of None \<Rightarrow> 500 | Some n \<Rightarrow> if n = 0 then 500 else n),
      statusText = (case exn_statusText err of
                      None \<Rightarrow> ''Internal Server Error''
                    | Some t \<Rightarrow> if t = [] then ''Internal Server Error'' else t),
      body = Some (if exn_message err = [] then ''Unknown Error'' else exn_message err),
      response_headers = [(''Content-Type'', ''text/plain;charset=UTF-8''),
                          (''Cache-Control'', ''no-store'')]\<rparr>"

definition fetch :: "(string \<Rightarrow> 'w client) \<Rightarrow> request \<Rightarrow> env \<Rightarrow> 'w \<Rightarrow> response \<times> 'w" where
  "fetch new_client req e w =
     (case handleRequest new_client req e w of
        (Inl err, w') \<Rightarrow> (error_response err, w')
      | (Inr resp, w') \<Rightarrow> (resp, w'))"

definition fetch_js :: "(string \<Rightarrow> 'w client) \<Rightarrow> request \<Rightarrow> env \<Rightarrow> 'w \<Rightarrow> response \<times> 'w" where
  "fetch_js new_client req e w =
     (case handleRequest_js new_client req e w of
        (Inl err, w') \<Rightarrow> (error_response err, w')
      | (Inr resp, w') \<Rightarrow> (resp, w'))"

section \<open>Observing the provider calls\<close>

text \<open>
  To speak about the calls a run issues, a client is wrapped so that every method call
  is appended to a log together with its outcome. The wrapped client behaves as the
  client it wraps; the log is a second component of the state.
\<close>

datatype event =
    FindZone string "exn + CloudflareZone"
  | FindRecord CloudflareZone string bool "exn + CloudflareDnsRecord"
  | UpdateRecord CloudflareDnsRecord string "exn + CloudflareDnsRecord"
  | UpdateAccessGroup string string string "exn + unit"

definition recording :: "'w client \<Rightarrow> ('w \<times> event list) client" where
  "recording c =
     \<lparr>findZone = (\<lambda>name (w, l).
        case findZone c name w of (r, w') \<Rightarrow> (r, (w', l @ [FindZone name r]))),
      findRecord = (\<lambda>zone name isIPV4 (w, l).
        case findRecord c zone name isIPV4 w of
          (r, w') \<Rightarrow> (r, (w', l @ [FindRecord zone name isIPV4 r]))),
      updateRecord = (\<lambda>record val (w, l).
        case updateRecord c record val w of
          (r, w') \<Rightarrow> (r, (w', l @ [UpdateRecord record val r]))),
      updateAccessGroup = (\<lambda>account grp ip (w, l).
        case updateAccessGroup c account grp ip w of
          (r, w') \<Rightarrow> (r, (w', l @ [UpdateAccessGroup account grp ip r])))\<rparr>"




fun is_UpdateAccessGroup :: "event \<Rightarrow> bool" where
  "is_UpdateAccessGroup (UpdateAccessGroup a g ip r) = True"
| "is_UpdateAccessGroup _ = False"

fun succeeded :: "event \<Rightarrow> bool" where
  "succeeded (FindZone d r) = (\<not> isl r)"
| "succeeded (FindRecord z h v r) = (\<not> isl r)"
| "succeeded (UpdateRecord rc ip r) = (\<not> isl r)"
| "succeeded (UpdateAccessGroup a g ip r) = (\<not> isl r)"

fun failure :: "event \<Rightarrow> exn option" where
  "failure (FindZone d r) = (case r of Inl e \<Rightarrow> Some e | Inr z \<Rightarrow> None)"
| "failure (FindRecord z h v r) = (case r of Inl e \<Rightarrow> Some e | Inr x \<Rightarrow> None)"
| "failure (UpdateRecord rc ip r) = (case r of Inl e \<Rightarrow> Some e | Inr x \<Rightarrow> None)"
| "failure (UpdateAccessGroup a g ip r) = (case r of Inl e \<Rightarrow> Some e | Inr x \<Rightarrow> None)"

section \<open>Outcomes in the log\<close>

text \<open>
  A stretch of the log agrees with the outcome of the code that produced it when every
  call in it succeeded, or, for an exception, when every call but the last succeeded and
  the last one threw that exception.
\<close>

definition outcome_matches :: "exn + 'a \<Rightarrow> event list \<Rightarrow> bool" where
  "outcome_matches r evs =
     (case r of
        Inr x \<Rightarrow> list_all succeeded evs
      | Inl e \<Rightarrow> evs \<noteq> [] \<and> list_all succeeded (butlast evs) \<and> failure (last evs) = Some e)"


section \<open>An in-memory provider\<close>

text \<open>
  A small provider to run the model on concrete requests: zones, the records of each
  zone, and the access groups that were written. A listing filters the store, an edit
  rewrites the record with the given identifier or fails with status 404, and a PUT
  stores the body under its path.
\<close>

record store =
  st_zones :: "CloudflareZone list"
  st_records :: "(string \<times> sdk_record) list"
  st_groups :: "(string \<times> group_body) list"

definition memory_sdk :: "string \<Rightarrow> store sdk" where
  "memory_sdk token =
     \<lparr>zones_list = (\<lambda>name w. (Inr (Some (filter (\<lambda>z. zone_name z = name) (st_zones w))), w)),
      dns_records_list = (\<lambda>zid ty w.
        (Inr (Some (map snd (filter (\<lambda>zr. fst zr = zid \<and> sr_type (snd zr) = Some ty) (st_records w)))), w)),
      dns_records_edit = (\<lambda>rid ps w.
        if filter (\<lambda>zr. sr_id (snd zr) = rid) (st_records w) = []
        then (Inl (ErrorObject ''Record does not exist.'' (Some 404)), w)
        else (Inr (), w\<lparr>st_records :=
                map (\<lambda>zr. if sr_id (snd zr) = rid
                           then (fst zr, (snd zr)\<lparr>sr_content := Some (ep_content ps)\<rparr>)
                           else zr) (st_records w)\<rparr>)),
      put = (\<lambda>path b w. (Inr (), w\<lparr>st_groups := (path, b) # filter (\<lambda>pb. fst pb \<noteq> path) (st_groups w)\<rparr>))\<rparr>"

definition example_store :: store where
  "example_store =
     \<lparr>st_zones = [\<lparr>zone_id = ''z1'', zone_name = ''example.com''\<rparr>],
      st_records =
        [(''z1'', \<lparr>sr_id = ''r1'', sr_type = Some ''A'', sr_name = ''a.example.com'',
                   sr_content = Some ''192.0.2.1'', sr_proxied = Some True, sr_ttl = Some 300\<rparr>),
         (''z1'', \<lparr>sr_id = ''r2'', sr_type = Some ''A'', sr_name = ''b.example.com'',
                   sr_content = Some ''192.0.2.2'', sr_proxied = None, sr_ttl = None\<rparr>)],
      st_groups = []\<rparr>"

definition example_env :: env where
  "example_env = \<lparr>DDNS_TOKEN = ''secret'', ACCOUNT_ID = None, ACCESS_GROUP_ID = None\<rparr>"

section \<open>The last two labels of a hostname, as the specification words it\<close>

text \<open>
  The specification describes the fallback domain as the last two dot-separated labels
  of the hostname. These definitions follow that wording: split at the dots, keep the
  last two pieces, join them with a dot. They are compared with \<open>replace_domain\<close>,
  which follows the regular expression of the source.
\<close>

definition labels :: "string \<Rightarrow> string list" where
  "labels h = split_on CHR ''.'' h"

fun join_dot :: "string list \<Rightarrow> string" where
  "join_dot [] = []"
| "join_dot [x] = x"
| "join_dot (x # y # r) = x @ CHR ''.'' # join_dot (y # r)"

definition last_two_labels :: "string \<Rightarrow> string" where
  "last_two_labels h = join_dot (drop (length (labels h) - 2) (labels h))"

definition two_trailing_labels :: "string \<Rightarrow> bool" where
  "two_trailing_labels h =
     (2 \<le> length (labels h) \<and> last (labels h) \<noteq> [] \<and> last (butlast (labels h)) \<noteq> [])"

section \<open>Example requests\<close>

definition update_request :: "(string \<times> string) list \<Rightarrow> (string \<times> string) list \<Rightarrow> request" where
  "update_request ps hs =
     \<lparr>protocol = ''https:'', pathname = ''/nic/update'', searchParams = ps, headers = hs\<rparr>"



definition request_favicon_http :: request where
  "request_favicon_http =
     \<lparr>protocol = ''http:'', pathname = ''/favicon.ico'', searchParams = [], headers = []\<rparr>"

definition request_favicon_https :: request where
  "request_favicon_https =
     \<lparr>protocol = ''https:'', pathname = ''/favicon.ico'', searchParams = [],
      headers = [(''x-forwarded-proto'', ''https'')]\<rparr>"

definition request_no_hostname :: request where
  "request_no_hostname = update_request [(''ip'', ''1.2.3.4''), (''token'', ''T'')] []"

definition request_empty_hostname :: request where
  "request_empty_hostname =
     update_request [(''hostname'', []), (''ip'', ''1.2.3.4''), (''token'', ''T'')] []"

definition request_empty_domains :: request where
  "request_empty_domains =
     update_request [(''domains'', []), (''ip'', ''1.2.3.4''), (''token'', ''T'')] []"


text \<open>The in-memory client, plain and recording, and the values it returns for the
  example store.\<close>

definition example_client :: "store client" where
  "example_client = new_CloudflareClient memory_sdk ''T''"

definition recording_client :: "string \<Rightarrow> (store \<times> event list) client" where
  "recording_client token = recording (new_CloudflareClient memory_sdk token)"



definition zone_not_found :: "string \<Rightarrow> exn" where
  "zone_not_found d =
     CloudflareApiException (''Failed to find zone '' @ [CHR 0x27] @ d @ [CHR 0x27]) 404"

section \<open>Auxiliary facts\<close>

lemma not_favicon:
  "endsWith p ''/update'' \<Longrightarrow> p \<noteq> ''/favicon.ico'' \<and> p \<noteq> ''/robots.txt''"
  by (auto simp: endsWith_def suffix_def)

lemma split_on_nonempty: "split_on sep s \<noteq> []"
  by (induction s) (auto split: list.splits)

lemma split_on_single_empty: "split_on sep s = [[]] \<longleftrightarrow> s = []"
  by (cases s) (auto split: list.splits simp: split_on_nonempty)

subsection \<open>The recording client\<close>

lemma recording_findZone:
  "findZone (recording c) name (w, l) =
     (fst (findZone c name w),
      (snd (findZone c name w), l @ [FindZone name (fst (findZone c name w))]))"
  by (simp add: recording_def split: prod.splits)

lemma recording_findRecord:
  "findRecord (recording c) z name v (w, l) =
     (fst (findRecord c z name v w),
      (snd (findRecord c z name v w), l @ [FindRecord z name v (fst (findRecord c z name v w))]))"
  by (simp add: recording_def split: prod.splits)

lemma recording_updateRecord:
  "updateRecord (recording c) rc ip (w, l) =
     (fst (updateRecord c rc ip w),
      (snd (updateRecord c rc ip w), l @ [UpdateRecord rc ip (fst (updateRecord c rc ip w))]))"
  by (simp add: recording_def split: prod.splits)

lemma recording_updateAccessGroup:
  "updateAccessGroup (recording c) a g ip (w, l) =
     (fst (updateAccessGroup c a g ip w),
      (snd (updateAccessGroup c a g ip w),
       l @ [UpdateAccessGroup a g ip (fst (updateAccessGroup c a g ip w))]))"
  by (simp add: recording_def split: prod.splits)

lemmas recording_simps =
  recording_findZone recording_findRecord recording_updateRecord recording_updateAccessGroup

text \<open>What one iteration over a hostname appends to the log, when it completes and when
  it throws.\<close>

lemma step_ok:
  assumes "update_hostname (recording c) v4 ip name zones h (w, l0) = (Inr zones', (w1, l1))"
  shows "\<exists>z rc rc'.
           l1 = l0 @ (if zones (domainName name h) = None
                      then [FindZone (domainName name h) (Inr z)] else [])
                   @ [FindRecord z h v4 (Inr rc), UpdateRecord rc ip (Inr rc')]
         \<and> zones' = zones(domainName name h \<mapsto> z)
         \<and> (zones (domainName name h) = None \<or> zones (domainName name h) = Some z)"
  using assms
  by (auto simp: update_hostname_def Let_def recording_simps
           split: option.splits prod.splits sum.splits)

lemma step_fail:
  assumes "update_hostname (recording c) v4 ip name zones h (w, l0) = (Inl e, (w1, l1))"
  shows "(zones (domainName name h) = None \<and> l1 = l0 @ [FindZone (domainName name h) (Inl e)])
       \<or> (\<exists>z. (zones (domainName name h) = None \<or> zones (domainName name h) = Some z) \<and>
             (l1 = l0 @ (if zones (domainName name h) = None
                         then [FindZone (domainName name h) (Inr z)] else [])
                      @ [FindRecord z h v4 (Inl e)]
              \<or> (\<exists>rc. l1 = l0 @ (if zones (domainName name h) = None
                                  then [FindZone (domainName name h) (Inr z)] else [])
                               @ [FindRecord z h v4 (Inr rc), UpdateRecord rc ip (Inl e)])))"
  using assms
  by (auto simp: update_hostname_def Let_def recording_simps
           split: option.splits prod.splits sum.splits)

subsection \<open>Recording does not change a run\<close>

text \<open>A run with the recording client returns what the run with the wrapped client
  returns and leaves the same remote state, whatever the log was.\<close>

lemma recording_update_hostname:
  "fst (update_hostname (recording c) v4 ip name zones h (w, l)) =
     fst (update_hostname c v4 ip name zones h w)
   \<and> fst (snd (update_hostname (recording c) v4 ip name zones h (w, l))) =
     snd (update_hostname c v4 ip name zones h w)"
  by (auto simp: update_hostname_def Let_def recording_simps
           split: option.splits prod.splits sum.splits)

lemma recording_update_hostnames:
  "fst (update_hostnames (recording c) v4 ip name zones hs (w, l)) =
     fst (update_hostnames c v4 ip name zones hs w)
   \<and> fst (snd (update_hostnames (recording c) v4 ip name zones hs (w, l))) =
     snd (update_hostnames c v4 ip name zones hs w)"
proof (induction hs arbitrary: zones w l)
  case Nil
  show ?case by simp
next
  case (Cons h hs)
  obtain r1 w1 l1 where
    a: "update_hostname (recording c) v4 ip name zones h (w, l) = (r1, (w1, l1))"
    by (metis surj_pair)
  with recording_update_hostname[of c v4 ip name zones h w l]
  have b: "update_hostname c v4 ip name zones h w = (r1, w1)"
    by (cases "update_hostname c v4 ip name zones h w") simp
  show ?case
  proof (cases r1)
    case (Inl e)
    with a b show ?thesis by simp
  next
    case (Inr zones')
    with a b Cons.IH[of zones' w1 l1] show ?thesis by simp
  qed
qed

lemma recording_update_ip:
  "fst (update_ip (recording c) hs name a g ip (w, l)) = fst (update_ip c hs name a g ip w)
   \<and> fst (snd (update_ip (recording c) hs name a g ip (w, l))) = snd (update_ip c hs name a g ip w)"
proof -
  obtain r1 w1 l1 where
    x: "updateDNSRecords (recording c) hs (trim ip) name (w, l) = (r1, (w1, l1))"
    by (metis surj_pair)
  with recording_update_hostnames[of c "CHR ''.'' \<in> set (trim ip)" "trim ip" name Map.empty hs w l]
  have y: "updateDNSRecords c hs (trim ip) name w = (r1, w1)"
    by (cases "updateDNSRecords c hs (trim ip) name w") (simp add: updateDNSRecords_def)
  from x y show ?thesis
    by (auto simp: update_ip_def recording_simps split: sum.splits option.splits prod.splits)
qed

lemma recording_update_ips:
  "fst (update_ips (recording c) hs name a g ips (w, l)) = fst (update_ips c hs name a g ips w)
   \<and> fst (snd (update_ips (recording c) hs name a g ips (w, l))) =
     snd (update_ips c hs name a g ips w)"
proof (induction ips arbitrary: w l)
  case Nil
  show ?case by simp
next
  case (Cons ip ips)
  obtain r1 w1 l1 where
    x: "update_ip (recording c) hs name a g ip (w, l) = (r1, (w1, l1))"
    by (metis surj_pair)
  with recording_update_ip[of c hs name a g ip w l]
  have y: "update_ip c hs name a g ip w = (r1, w1)"
    by (cases "update_ip c hs name a g ip w") simp
  show ?case
  proof (cases r1)
    case (Inl e)
    with x y show ?thesis by simp
  next
    case (Inr u)
    with x y Cons.IH[of w1 l1] show ?thesis by simp
  qed
qed

lemma recording_handleRequest:
  "fst (handleRequest (\<lambda>token. recording (new_client token)) req e (w, l)) =
     fst (handleRequest new_client req e w)
   \<and> fst (snd (handleRequest (\<lambda>token. recording (new_client token)) req e (w, l))) =
     snd (handleRequest new_client req e w)"
proof -
  have k: "fst (case x of (Inl ex, w') \<Rightarrow> (Inl ex, w') | (Inr u, w') \<Rightarrow> (Inr good_response, w'))
             = (case fst x of Inl ex \<Rightarrow> Inl ex | Inr u \<Rightarrow> Inr good_response)
           \<and> snd (case x of (Inl ex, w') \<Rightarrow> (Inl ex, w') | (Inr u, w') \<Rightarrow> (Inr good_response, w'))
             = snd x"
    for x :: "(exn + unit) \<times> 's"
    by (cases x; cases "fst x") auto
  show ?thesis
    using recording_update_ips[of "new_client t" for t]
    by (simp add: handleRequest_def Let_def k del: update_ips.simps
             split: sum.splits option.splits list.splits)
qed

lemma recording_fetch:
  "fst (fetch (\<lambda>token. recording (new_client token)) req e (w, l)) = fst (fetch new_client req e w)
   \<and> fst (snd (fetch (\<lambda>token. recording (new_client token)) req e (w, l))) =
     snd (fetch new_client req e w)"
  using recording_handleRequest[of new_client req e w l]
  by (cases "handleRequest (\<lambda>token. recording (new_client token)) req e (w, l)";
      cases "handleRequest new_client req e w")
     (auto simp: fetch_def split: sum.splits)

subsection \<open>The zone cache and the log\<close>


subsection \<open>Abort, outcomes and the order of calls\<close>


lemma outcome_matches_Inl:
  "outcome_matches (Inl e) evs =
     (evs \<noteq> [] \<and> list_all succeeded (butlast evs) \<and> failure (last evs) = Some e)"
  by (simp add: outcome_matches_def)

lemma outcome_matches_Inr: "outcome_matches (Inr x) evs = list_all succeeded evs"
  by (simp add: outcome_matches_def)

lemma outcome_matches_append:
  "list_all succeeded evs1 \<Longrightarrow> outcome_matches r evs2 \<Longrightarrow> outcome_matches r (evs1 @ evs2)"
  by (cases r) (auto simp: outcome_matches_def butlast_append)

lemma step_outcome:
  assumes "update_hostname (recording c) v4 ip name zones h (w, l0) = (r, (w1, l1))"
  shows "\<exists>evs. l1 = l0 @ evs \<and> outcome_matches r evs \<and> filter is_UpdateAccessGroup evs = []"
proof (cases r)
  case (Inl e)
  from step_fail[OF assms[unfolded Inl]] show ?thesis
    by (elim disjE exE conjE) (auto simp: outcome_matches_def Inl)
next
  case (Inr zs)
  from step_ok[OF assms[unfolded Inr]] show ?thesis
    by (elim disjE exE conjE) (auto simp: outcome_matches_def Inr)
qed

lemma loop_outcome:
  assumes "update_hostnames (recording c) v4 ip name zones hs (w, l0) = (r, (w', l))"
  shows "\<exists>evs. l = l0 @ evs \<and> outcome_matches r evs \<and> filter is_UpdateAccessGroup evs = []"
  using assms
proof (induction hs arbitrary: zones w l0)
  case Nil
  then show ?case by (auto simp: outcome_matches_def)
next
  case (Cons h hs)
  obtain r1 w1 l1 where
    step: "update_hostname (recording c) v4 ip name zones h (w, l0) = (r1, (w1, l1))"
    by (metis surj_pair)
  from step_outcome[OF step] obtain evs1 where
    e1: "l1 = l0 @ evs1" "outcome_matches r1 evs1" "filter is_UpdateAccessGroup evs1 = []" by blast
  show ?case
  proof (cases r1)
    case (Inl e)
    with step Cons.prems have "r = Inl e" "l = l1" by auto
    with e1 Inl show ?thesis by (auto simp: outcome_matches_Inl)
  next
    case (Inr zones')
    with step Cons.prems
    have rest: "update_hostnames (recording c) v4 ip name zones' hs (w1, l1) = (r, (w', l))"
      by auto
    from Cons.IH[OF rest] obtain evs2 where
      e2: "l = l1 @ evs2" "outcome_matches r evs2" "filter is_UpdateAccessGroup evs2 = []" by blast
    from e1(2) Inr have s1: "list_all succeeded evs1" by (simp add: outcome_matches_def)
    from outcome_matches_append[OF s1 e2(2)] e1 e2 show ?thesis by auto
  qed
qed

lemma ip_outcome:
  assumes "update_ip (recording c) hs name accountId accessGroupId ip (w, l0) = (r, (w', l))"
  shows "\<exists>evs. l = l0 @ evs \<and> outcome_matches r evs \<and>
     (if truthy accountId \<and> truthy accessGroupId
         \<and> fst (updateDNSRecords (recording c) hs (trim ip) name (w, l0)) = Inr ()
      then \<exists>a g. accountId = Some a \<and> accessGroupId = Some g
             \<and> filter is_UpdateAccessGroup evs = [UpdateAccessGroup a g ip r]
             \<and> last evs = UpdateAccessGroup a g ip r
      else filter is_UpdateAccessGroup evs = [])"
proof -
  obtain r1 w1 l1 where
    dns: "updateDNSRecords (recording c) hs (trim ip) name (w, l0) = (r1, (w1, l1))"
    by (metis surj_pair)
  from loop_outcome[OF dns[unfolded updateDNSRecords_def]] obtain evs1 where
    e1: "l1 = l0 @ evs1" "outcome_matches r1 evs1" "filter is_UpdateAccessGroup evs1 = []" by blast
  show ?thesis
  proof (cases r1)
    case (Inl e)
    with dns assms have "r = Inl e" "l = l1" by (auto simp: update_ip_def)
    with e1 Inl dns show ?thesis by (auto simp: outcome_matches_Inl)
  next
    case (Inr u)
    then have s1: "list_all succeeded evs1" using e1(2) by (simp add: outcome_matches_def)
    show ?thesis
    proof (cases "truthy accountId \<and> truthy accessGroupId")
      case True
      then obtain a g where ag: "accountId = Some a" "accessGroupId = Some g" "a \<noteq> []" "g \<noteq> []"
        by (cases accountId; cases accessGroupId) auto
      from assms dns Inr ag
      have "l = l1 @ [UpdateAccessGroup a g ip r]"
        by (auto simp: update_ip_def recording_simps)
      moreover have "outcome_matches r [UpdateAccessGroup a g ip r]"
        by (cases r) (auto simp: outcome_matches_def)
      ultimately show ?thesis
        using e1 s1 ag dns Inr outcome_matches_append[OF s1, of r "[UpdateAccessGroup a g ip r]"]
        by auto
    next
      case False
      with assms dns Inr have "l = l1" "r = Inr ()"
        by (auto simp: update_ip_def split: option.splits if_splits)
      with e1 False Inr show ?thesis by auto
    qed
  qed
qed

lemma ips_outcome:
  assumes "update_ips (recording c) hs name accountId accessGroupId ips (w, l0) = (r, (w', l))"
  shows "\<exists>evs. l = l0 @ evs \<and> outcome_matches r evs"
  using assms
proof (induction ips arbitrary: w l0)
  case Nil
  then show ?case by (auto simp: outcome_matches_def)
next
  case (Cons ip ips)
  obtain r1 w1 l1 where
    step: "update_ip (recording c) hs name accountId accessGroupId ip (w, l0) = (r1, (w1, l1))"
    by (metis surj_pair)
  from ip_outcome[OF step] obtain evs1 where
    e1: "l1 = l0 @ evs1" "outcome_matches r1 evs1" by blast
  show ?case
  proof (cases r1)
    case (Inl e)
    with step Cons.prems have "r = Inl e" "l = l1" by auto
    with e1 Inl show ?thesis by (auto simp: outcome_matches_Inl)
  next
    case (Inr u)
    with step Cons.prems
    have rest: "update_ips (recording c) hs name accountId accessGroupId ips (w1, l1) = (r, (w', l))"
      by auto
    from Cons.IH[OF rest] obtain evs2 where
      e2: "l = l1 @ evs2" "outcome_matches r evs2" by blast
    from e1(2) Inr have s1: "list_all succeeded evs1" by (simp add: outcome_matches_def)
    from outcome_matches_append[OF s1 e2(2)] e1 e2 show ?thesis by auto
  qed
qed













subsection \<open>The hostnames a log speaks about\<close>



subsection \<open>The first call of a request\<close>

lemma first_lookup:
  assumes "zones (domainName name h) = None"
      and "update_hostname (recording c) v4 ip name zones h (w, l) = (r1, (w1, l1))"
  shows "\<exists>evs. l1 = l @ FindZone (domainName name h) (fst (findZone c (domainName name h) w)) # evs"
  using assms
  by (auto simp: update_hostname_def Let_def recording_simps split: prod.splits sum.splits)

lemma dns_first_lookup:
  assumes "updateDNSRecords (recording c) (h # rest) ip name (w, l) = (r, (w', l'))"
  shows "\<exists>evs. l' = l @ FindZone (domainName name h) (fst (findZone c (domainName name h) w)) # evs"
proof -
  obtain r1 w1 l1 where
    step: "update_hostname (recording c) (CHR ''.'' \<in> set ip) ip name Map.empty h (w, l)
             = (r1, (w1, l1))"
    by (metis surj_pair)
  from first_lookup[OF _ step] obtain evs1 where
    l1: "l1 = l @ FindZone (domainName name h) (fst (findZone c (domainName name h) w)) # evs1"
    by auto
  show ?thesis
  proof (cases r1)
    case (Inl e)
    with step assms have "l' = l1" by (auto simp: updateDNSRecords_def)
    with l1 show ?thesis by simp
  next
    case (Inr zones')
    with step assms
    have "update_hostnames (recording c) (CHR ''.'' \<in> set ip) ip name zones' rest (w1, l1)
            = (r, (w', l'))"
      by (auto simp: updateDNSRecords_def)
    from loop_outcome[OF this] obtain evs2 where "l' = l1 @ evs2" by blast
    with l1 show ?thesis by simp
  qed
qed

lemma ip_first_lookup:
  assumes "update_ip (recording c) (h # rest) name accountId accessGroupId ip (w, l) = (r, (w', l'))"
  shows "\<exists>evs. l' = l @ FindZone (domainName name h) (fst (findZone c (domainName name h) w)) # evs"
proof -
  obtain r1 w1 l1 where
    dns: "updateDNSRecords (recording c) (h # rest) (trim ip) name (w, l) = (r1, (w1, l1))"
    by (metis surj_pair)
  from dns_first_lookup[OF dns] obtain evs1 where
    l1: "l1 = l @ FindZone (domainName name h) (fst (findZone c (domainName name h) w)) # evs1"
    by blast
  from assms dns have "\<exists>evs2. l' = l1 @ evs2"
    by (auto simp: update_ip_def recording_simps split: sum.splits option.splits if_splits)
  with l1 show ?thesis by auto
qed

lemma ips_first_lookup:
  assumes "update_ips (recording c) (h # rest) name accountId accessGroupId (i # is) (w, l)
             = (r, (w', l'))"
  shows "\<exists>evs. l' = l @ FindZone (domainName name h) (fst (findZone c (domainName name h) w)) # evs"
proof -
  obtain r1 w1 l1 where
    step: "update_ip (recording c) (h # rest) name accountId accessGroupId i (w, l) = (r1, (w1, l1))"
    by (metis surj_pair)
  from ip_first_lookup[OF step] obtain evs1 where
    l1: "l1 = l @ FindZone (domainName name h) (fst (findZone c (domainName name h) w)) # evs1"
    by blast
  show ?thesis
  proof (cases r1)
    case (Inl e)
    with step assms have "l' = l1" by auto
    with l1 show ?thesis by simp
  next
    case (Inr u)
    with step assms
    have "update_ips (recording c) (h # rest) name accountId accessGroupId is (w1, l1) = (r, (w', l'))"
      by auto
    from ips_outcome[OF this] obtain evs2 where "l' = l1 @ evs2" by blast
    with l1 show ?thesis by simp
  qed
qed

lemma request_first_lookup:
  assumes "endsWith (pathname req) ''/update''"
      and "header req ''authorization'' \<noteq> None \<or> param req ''token'' \<noteq> None"
      and "parseBasicAuth req = Inr creds"
      and "resolve_hostnames req = Some (h # rest)"
      and "resolve_ips req \<noteq> None"
  shows "\<exists>rz evs. snd (snd (handleRequest (\<lambda>token. recording (new_client token)) req e (w, [])))
                    = FindZone (domainName (username creds) h) rz # evs"
proof -
  from assms(5) obtain i "is" where ips: "resolve_ips req = Some (i # is)"
    by (cases "resolve_ips req"; cases "the (resolve_ips req)")
       (auto simp: resolve_ips_def split_on_nonempty)
  obtain c where c: "c = new_client (case js_or (js_or (password creds) (param req ''token''))
                                             (Some (DDNS_TOKEN e)) of None \<Rightarrow> [] | Some t \<Rightarrow> t)"
    by simp
  obtain r w' l' where
    run: "update_ips (recording c) (h # rest) (username creds)
            (js_or (param req ''account'') (ACCOUNT_ID e))
            (js_or (param req ''group'') (ACCESS_GROUP_ID e)) (i # is) (w, []) = (r, (w', l'))"
    by (metis surj_pair)
  from ips_first_lookup[OF run] obtain rz evs where
    l': "l' = FindZone (domainName (username creds) h) rz # evs"
    by auto
  from assms(1,2,3,4) ips not_favicon[OF assms(1)] run c
  have "snd (snd (handleRequest (\<lambda>token. recording (new_client token)) req e (w, []))) = l'"
    by (cases r) (auto simp: handleRequest_def Let_def simp del: update_ips.simps)
  with l' show ?thesis by blast
qed

subsection \<open>The regular expression and the labels\<close>

lemma split_on_Cons_sep: "split_on sep (sep # cs) = [] # split_on sep cs"
  by simp

lemma split_on_Cons_other:
  "c \<noteq> sep \<Longrightarrow> split_on sep (c # cs) = (c # hd (split_on sep cs)) # tl (split_on sep cs)"
  using split_on_nonempty[of sep cs] by (cases "split_on sep cs") auto

lemma split_on_no_sep: "sep \<notin> set b \<Longrightarrow> split_on sep b = [b]"
  by (induction b) (auto split: list.splits)

lemma split_on_single: "split_on sep b = [x] \<Longrightarrow> sep \<notin> set b \<and> x = b"
proof (induction b arbitrary: x)
  case Nil
  then show ?case by simp
next
  case (Cons c cs)
  show ?case
  proof (cases "c = sep")
    case True
    with Cons.prems split_on_nonempty[of sep cs] show ?thesis by simp
  next
    case False
    with Cons.prems split_on_nonempty[of sep cs] obtain p where
      p: "split_on sep cs = [p]" "x = c # p"
      by (auto split: list.splits)
    from Cons.IH[OF p(1)] p False show ?thesis by simp
  qed
qed

lemma split_on_decomp:
  "split_on sep t = takeWhile (\<lambda>c. c \<noteq> sep) t #
     (case dropWhile (\<lambda>c. c \<noteq> sep) t of [] \<Rightarrow> [] | x # b \<Rightarrow> split_on sep b)"
  by (induction t) (auto split: list.splits)

lemma join_dot_labels: "join_dot (split_on CHR ''.'' s) = s"
proof (induction s)
  case Nil
  then show ?case by simp
next
  case (Cons c cs)
  obtain p ps where ps: "split_on CHR ''.'' cs = p # ps"
    using split_on_nonempty[of "CHR ''.''" cs] by (cases "split_on CHR ''.'' cs") auto
  with Cons show ?case by (cases ps) auto
qed

lemma group_matches_labels:
  "group_matches t \<longleftrightarrow> (\<exists>a b. labels t = [a, b] \<and> a \<noteq> [] \<and> b \<noteq> [])"
proof (cases "dropWhile (\<lambda>c. c \<noteq> CHR ''.'') t")
  case Nil
  have "split_on CHR ''.'' t =
          takeWhile (\<lambda>c. c \<noteq> CHR ''.'') t #
            (case dropWhile (\<lambda>c. c \<noteq> CHR ''.'') t of [] \<Rightarrow> [] | x # b \<Rightarrow> split_on CHR ''.'' b)"
    by (rule split_on_decomp)
  then have "length (labels t) = 1" unfolding Nil labels_def by simp
  moreover have "\<not> group_matches t" unfolding group_matches_def Nil by simp
  ultimately show ?thesis by auto
next
  case (Cons x b)
  have l: "labels t = takeWhile (\<lambda>c. c \<noteq> CHR ''.'') t # split_on CHR ''.'' b"
    using split_on_decomp[of "CHR ''.''" t] Cons by (simp add: labels_def)
  show ?thesis
  proof
    assume "group_matches t"
    with Cons have "takeWhile (\<lambda>c. c \<noteq> CHR ''.'') t \<noteq> []" "b \<noteq> []" "CHR ''.'' \<notin> set b"
      by (auto simp: group_matches_def)
    with l split_on_no_sep[of "CHR ''.''" b] show "\<exists>a b. labels t = [a, b] \<and> a \<noteq> [] \<and> b \<noteq> []"
      by simp
  next
    assume "\<exists>a b. labels t = [a, b] \<and> a \<noteq> [] \<and> b \<noteq> []"
    then obtain a b' where ab: "labels t = [a, b']" "a \<noteq> []" "b' \<noteq> []" by blast
    with l have "takeWhile (\<lambda>c. c \<noteq> CHR ''.'') t = a" "split_on CHR ''.'' b = [b']" by auto
    with split_on_single[of "CHR ''.''" b b'] ab Cons show "group_matches t"
      by (auto simp: group_matches_def)
  qed
qed

text \<open>The two notions on a list of labels.\<close>

lemma trailing_Cons:
  "2 \<le> length ls \<Longrightarrow>
     (2 \<le> length (x # ls) \<and> last (x # ls) \<noteq> [] \<and> last (butlast (x # ls)) \<noteq> [])
       = (2 \<le> length ls \<and> last ls \<noteq> [] \<and> last (butlast ls) \<noteq> [])
     \<and> join_dot (drop (length (x # ls) - 2) (x # ls)) = join_dot (drop (length ls - 2) ls)"
  by (cases ls; cases "tl ls") (auto simp: Suc_diff_le)

lemma labels_step:
  assumes "\<not> group_matches (c # cs)"
  shows "two_trailing_labels (c # cs) = two_trailing_labels cs
       \<and> (two_trailing_labels cs \<longrightarrow> last_two_labels (c # cs) = last_two_labels cs)"
proof -
  obtain p ps where ps: "labels cs = p # ps"
    using split_on_nonempty[of "CHR ''.''" cs] by (cases "labels cs") (auto simp: labels_def)
  show ?thesis
  proof (cases "c = CHR ''.''")
    case True
    then have l: "labels (c # cs) = [] # labels cs" by (simp add: labels_def)
    show ?thesis
    proof (cases ps)
      case Nil
      with ps l show ?thesis by (simp add: two_trailing_labels_def)
    next
      case (Cons q qs)
      with ps have "2 \<le> length (labels cs)" by simp
      from trailing_Cons[OF this, of "[]"] l show ?thesis
        by (simp add: two_trailing_labels_def last_two_labels_def)
    qed
  next
    case False
    with ps have l: "labels (c # cs) = (c # p) # ps" by (simp add: labels_def)
    show ?thesis
    proof (cases ps)
      case Nil
      with ps l show ?thesis by (simp add: two_trailing_labels_def)
    next
      case (Cons q qs)
      show ?thesis
      proof (cases qs)
        case Nil
        with Cons l assms have "q = []" by (auto simp: group_matches_labels)
        with Nil Cons ps l show ?thesis by (simp add: two_trailing_labels_def)
      next
        case (Cons q' qs')
        with \<open>ps = q # qs\<close> have len: "2 \<le> length ps" by simp
        from trailing_Cons[OF len, of "c # p"] trailing_Cons[OF len, of p] l ps show ?thesis
          by (simp add: two_trailing_labels_def last_two_labels_def)
      qed
    qed
  qed
qed

lemma match_here_labels:
  "\<not> list_ex is_line_terminator s \<Longrightarrow>
   match_here s = (if two_trailing_labels s then Some (last_two_labels s) else None)"
proof (induction s)
  case Nil
  then show ?case by (simp add: two_trailing_labels_def labels_def)
next
  case (Cons c cs)
  show ?case
  proof (cases "group_matches (c # cs)")
    case True
    then obtain a b where ab: "labels (c # cs) = [a, b]" "a \<noteq> []" "b \<noteq> []"
      by (auto simp: group_matches_labels)
    from join_dot_labels[of "c # cs"] ab have "a @ CHR ''.'' # b = c # cs"
      by (simp add: labels_def)
    with ab True show ?thesis
      by (simp add: two_trailing_labels_def last_two_labels_def)
  next
    case False
    from Cons.prems have "\<not> is_line_terminator c" "\<not> list_ex is_line_terminator cs" by auto
    with False Cons.IH labels_step[OF False] show ?thesis by auto
  qed
qed

lemma replace_domain_labels:
  "\<not> list_ex is_line_terminator s \<Longrightarrow>
   replace_domain s = (if two_trailing_labels s then last_two_labels s else s)"
proof (induction s)
  case Nil
  then show ?case by (simp add: two_trailing_labels_def labels_def)
next
  case (Cons c cs)
  from Cons.prems have nl: "\<not> is_line_terminator c" "\<not> list_ex is_line_terminator cs" by auto
  show ?case
  proof (cases "two_trailing_labels (c # cs)")
    case True
    with match_here_labels[OF Cons.prems] show ?thesis by simp
  next
    case False
    with match_here_labels[OF Cons.prems] have none: "match_here (c # cs) = None" by simp
    with nl have "match_here cs = None" by (auto split: if_splits)
    with match_here_labels[OF nl(2)] have "\<not> two_trailing_labels cs" by (auto split: if_splits)
    with Cons.IH[OF nl(2)] none False show ?thesis by simp
  qed
qed

section \<open>The claims\<close>



text \<open>
  C2 (amended). When a non-empty username is given and the hostname ends with it, the
  domain is the username as it is. Otherwise, for a hostname without line terminators,
  the domain is the last two dot-separated labels of the hostname when it has at least
  two labels and its last two are both non-empty, and the hostname unchanged when not.
\<close>

theorem domain_selection:
  "(name = Some n \<and> n \<noteq> [] \<and> endsWith hostname n \<longrightarrow> domainName name hostname = n)
   \<and> (\<not> (\<exists>u. name = Some u \<and> u \<noteq> [] \<and> endsWith hostname u)
        \<and> \<not> list_ex is_line_terminator hostname \<longrightarrow>
      domainName name hostname =
        (if two_trailing_labels hostname then last_two_labels hostname else hostname))"
  using replace_domain_labels[of hostname]
  by (auto simp: domainName_def split: option.splits)

theorem domain_selection_witness:
  "endsWith ''host.mydomain.net'' ''mydomain.net''
   \<and> domainName (Some ''mydomain.net'') ''host.mydomain.net'' = ''mydomain.net''
   \<and> \<not> list_ex is_line_terminator ''a.example.com''
   \<and> two_trailing_labels ''a.example.com''
   \<and> last_two_labels ''a.example.com'' = ''example.com''
   \<and> domainName None ''a.example.com'' = ''example.com''"
proof -
  have e: "endsWith ''host.mydomain.net'' ''mydomain.net''" by code_simp
  have nl: "\<not> list_ex is_line_terminator ''a.example.com''" by code_simp
  have t: "two_trailing_labels ''a.example.com''" by code_simp
  have l: "last_two_labels ''a.example.com'' = ''example.com''" by code_simp
  have "domainName (Some ''mydomain.net'') ''host.mydomain.net'' = ''mydomain.net''"
    using domain_selection[where name = "Some ''mydomain.net''" and n = "''mydomain.net''"
        and hostname = "''host.mydomain.net''"] e
    by simp
  moreover have "domainName None ''a.example.com'' = ''example.com''"
    using domain_selection[where name = None and hostname = "''a.example.com''"] nl t l
    by simp
  ultimately show ?thesis using e nl t l by blast
qed

text \<open>
  The claim as stated fails in three places. A hostname with a trailing dot has an empty
  last label: the expression does not match and the whole hostname is the domain, not its
  last two labels. An empty username is falsy, so it is not used although every hostname
  ends with it. And \<open>.\<close> does not match a line terminator, so the match starts after
  it and the text before it stays in the domain.
\<close>

theorem domain_selection_counterexample:
  "domainName None ''host.example.com.'' = ''host.example.com.''
   \<and> last_two_labels ''host.example.com.'' = ''com.''
   \<and> endsWith ''a.example.com'' []
   \<and> domainName (Some []) ''a.example.com'' = ''example.com''
   \<and> domainName None (''x'' @ [CHR 0x0A] @ ''y.a.b'') = ''x'' @ [CHR 0x0A] @ ''a.b''
   \<and> last_two_labels (''x'' @ [CHR 0x0A] @ ''y.a.b'') = ''a.b''"
  by code_simp






text \<open>
  C5. A request to a path ending in \<open>/update\<close> that carries a credential, whose
  \<open>Authorization\<close> header (if any) parses, and whose hostname list or address list is
  missing or empty, is answered with status 400 and the reason that names both hostnames
  and addresses; no method of the client is called, and the state is unchanged.
\<close>

theorem missing_lists_bad_request:
  assumes "endsWith (pathname req) ''/update''"
      and "header req ''authorization'' \<noteq> None \<or> param req ''token'' \<noteq> None"
      and "parseBasicAuth req = Inr creds"
      and "resolve_hostnames req \<in> {None, Some []} \<or> resolve_ips req \<in> {None, Some []}"
  shows "fetch (\<lambda>token. recording (new_client token)) req e (w, []) =
     (\<lparr>status = 400, statusText = ''Bad Request'',
       body = Some ''You must specify both hostname(s) and IP address(es)'',
       response_headers = [(''Content-Type'', ''text/plain;charset=UTF-8''),
                           (''Cache-Control'', ''no-store'')]\<rparr>, (w, []))"
  using assms not_favicon[OF assms(1)]
  by (auto simp: fetch_def handleRequest_def error_response_def
           split: option.splits list.splits)

theorem missing_lists_bad_request_witness:
  "endsWith (pathname request_no_hostname) ''/update''
   \<and> param request_no_hostname ''token'' = Some ''T''
   \<and> parseBasicAuth request_no_hostname = Inr \<lparr>username = None, password = None\<rparr>
   \<and> resolve_hostnames request_no_hostname = None
   \<and> fetch (\<lambda>token. recording (new_CloudflareClient memory_sdk token)) request_no_hostname
        example_env (example_store, []) =
     (\<lparr>status = 400, statusText = ''Bad Request'',
       body = Some ''You must specify both hostname(s) and IP address(es)'',
       response_headers = [(''Content-Type'', ''text/plain;charset=UTF-8''),
                           (''Cache-Control'', ''no-store'')]\<rparr>, (example_store, []))"
proof -
  have p: "endsWith (pathname request_no_hostname) ''/update''" by code_simp
  have t: "param request_no_hostname ''token'' = Some ''T''" by code_simp
  have a: "parseBasicAuth request_no_hostname = Inr \<lparr>username = None, password = None\<rparr>"
    by code_simp
  have h: "resolve_hostnames request_no_hostname = None" by code_simp
  have t': "header request_no_hostname ''authorization'' \<noteq> None
            \<or> param request_no_hostname ''token'' \<noteq> None"
    using t by simp
  have h': "resolve_hostnames request_no_hostname \<in> {None, Some []}
            \<or> resolve_ips request_no_hostname \<in> {None, Some []}"
    using h by simp
  from missing_lists_bad_request[OF p t' a h', of "new_CloudflareClient memory_sdk"
         example_env example_store] p t a h
  show ?thesis by blast
qed

text \<open>
  C6 (amended). A request for \<open>/favicon.ico\<close> or \<open>/robots.txt\<close> is answered by the
  handler of \<open>index.ts\<close> with status 204 and no body, whatever its parameters, headers
  and URL scheme are, and without touching the state. The variant of the handler that
  enforces HTTPS answers so exactly when the URL scheme is \<open>https:\<close> and the
  \<open>x-forwarded-proto\<close> header is \<open>https\<close>; otherwise its answer is the Bad Request
  of \<open>requireHttps\<close>.
\<close>

theorem favicon_robots_no_content:
  assumes "pathname req = ''/favicon.ico'' \<or> pathname req = ''/robots.txt''"
  shows "fetch new_client req e w =
           (\<lparr>status = 204, statusText = [], body = None, response_headers = []\<rparr>, w)
       \<and> fetch_js new_client req e w =
           (if protocol req = ''https:'' \<and> header req ''x-forwarded-proto'' = Some ''https''
            then \<lparr>status = 204, statusText = [], body = None, response_headers = []\<rparr>
            else error_response (BadRequestException ''Please use a HTTPS connection.''), w)"
  using assms
  by (auto simp: fetch_def fetch_js_def handleRequest_def handleRequest_js_def requireHttps_def)

theorem favicon_robots_no_content_witness:
  "pathname request_favicon_https = ''/favicon.ico''
   \<and> protocol request_favicon_https = ''https:''
   \<and> header request_favicon_https ''x-forwarded-proto'' = Some ''https''
   \<and> fetch (new_CloudflareClient memory_sdk) request_favicon_https example_env example_store =
        (\<lparr>status = 204, statusText = [], body = None, response_headers = []\<rparr>, example_store)
   \<and> fetch_js (new_CloudflareClient memory_sdk) request_favicon_https example_env example_store =
        (\<lparr>status = 204, statusText = [], body = None, response_headers = []\<rparr>, example_store)"
proof -
  have p: "pathname request_favicon_https = ''/favicon.ico''" by code_simp
  have s: "protocol request_favicon_https = ''https:''" by code_simp
  have x: "header request_favicon_https ''x-forwarded-proto'' = Some ''https''" by code_simp
  from favicon_robots_no_content[OF disjI1[OF p], of "new_CloudflareClient memory_sdk"
         example_env example_store] p s x
  show ?thesis by simp
qed

text \<open>
  The claim as stated fails on the variant that enforces HTTPS: it checks the scheme
  before the path, so a plain-HTTP request for \<open>/favicon.ico\<close> is answered 400.
\<close>

theorem favicon_robots_counterexample:
  "pathname request_favicon_http = ''/favicon.ico''
   \<and> status (fst (fetch_js (new_CloudflareClient memory_sdk) request_favicon_http
                    example_env example_store)) = 400"
  by code_simp







text \<open>
  C10 (amended). An empty parameter is falsy and is passed over by \<open>||\<close> like a
  missing one, except in the last place of the chain, where its value is what is split.
  So the hostname list is missing exactly when \<open>hostname\<close> and \<open>host\<close> are missing or
  empty and \<open>domains\<close> is missing, and it is the one-element list of the empty string
  exactly when they are missing or empty and \<open>domains\<close> is present and empty; the same
  holds for the addresses, with the \<open>Cf-Connecting-Ip\<close> header in the last place. A
  list that is present is never empty, and a request past the credential check with both
  lists present goes on to the provider: its first call is the zone lookup for the first
  hostname. In particular an empty hostname at the head of the list reaches the zone
  lookup of the empty domain.
\<close>

theorem empty_parameter_resolution:
  "(resolve_hostnames req = None \<longleftrightarrow>
      \<not> truthy (param req ''hostname'') \<and> \<not> truthy (param req ''host'')
      \<and> param req ''domains'' = None)
   \<and> (resolve_hostnames req = Some [[]] \<longleftrightarrow>
      \<not> truthy (param req ''hostname'') \<and> \<not> truthy (param req ''host'')
      \<and> param req ''domains'' = Some [])
   \<and> (resolve_ips req = None \<longleftrightarrow>
      \<not> truthy (param req ''ips'') \<and> \<not> truthy (param req ''ip'')
      \<and> \<not> truthy (param req ''myip'') \<and> header req ''cf-connecting-ip'' = None)
   \<and> (resolve_ips req = Some [[]] \<longleftrightarrow>
      \<not> truthy (param req ''ips'') \<and> \<not> truthy (param req ''ip'')
      \<and> \<not> truthy (param req ''myip'') \<and> header req ''cf-connecting-ip'' = Some [])
   \<and> resolve_hostnames req \<noteq> Some [] \<and> resolve_ips req \<noteq> Some []
   \<and> (endsWith (pathname req) ''/update''
        \<and> (header req ''authorization'' \<noteq> None \<or> param req ''token'' \<noteq> None)
        \<and> parseBasicAuth req = Inr creds
        \<and> resolve_hostnames req = Some (h # hs) \<and> resolve_ips req \<noteq> None \<longrightarrow>
      (\<exists>rz evs. snd (snd (handleRequest (\<lambda>token. recording (new_client token)) req e (w0, [])))
                  = FindZone (domainName (username creds) h) rz # evs))
   \<and> domainName name [] = []
   \<and> (\<exists>evs. snd (snd (updateDNSRecords (recording c) ([] # rest) ip name (w, l)))
              = l @ FindZone [] (fst (findZone c [] w)) # evs)"
proof -
  have h1: "resolve_hostnames req = None \<longleftrightarrow>
      \<not> truthy (param req ''hostname'') \<and> \<not> truthy (param req ''host'')
      \<and> param req ''domains'' = None"
    by (cases "param req ''hostname''"; cases "param req ''host''")
       (simp_all add: resolve_hostnames_def js_or_def)
  have h2: "resolve_hostnames req = Some [[]] \<longleftrightarrow>
      \<not> truthy (param req ''hostname'') \<and> \<not> truthy (param req ''host'')
      \<and> param req ''domains'' = Some []"
    by (cases "param req ''hostname''"; cases "param req ''host''";
        cases "param req ''domains''")
       (simp_all add: resolve_hostnames_def js_or_def split_on_single_empty)
  have i1: "resolve_ips req = None \<longleftrightarrow>
      \<not> truthy (param req ''ips'') \<and> \<not> truthy (param req ''ip'')
      \<and> \<not> truthy (param req ''myip'') \<and> header req ''cf-connecting-ip'' = None"
    by (cases "param req ''ips''"; cases "param req ''ip''"; cases "param req ''myip''")
       (simp_all add: resolve_ips_def js_or_def)
  have i2: "resolve_ips req = Some [[]] \<longleftrightarrow>
      \<not> truthy (param req ''ips'') \<and> \<not> truthy (param req ''ip'')
      \<and> \<not> truthy (param req ''myip'') \<and> header req ''cf-connecting-ip'' = Some []"
    by (cases "param req ''ips''"; cases "param req ''ip''"; cases "param req ''myip''";
        cases "header req ''cf-connecting-ip''")
       (simp_all add: resolve_ips_def js_or_def split_on_single_empty)
  have n: "resolve_hostnames req \<noteq> Some []" "resolve_ips req \<noteq> Some []"
    by (simp_all add: resolve_hostnames_def resolve_ips_def split_on_nonempty)
  have d: "domainName name [] = []"
    by (cases name) (auto simp: domainName_def endsWith_def)
  obtain r w' l' where
    run: "updateDNSRecords (recording c) ([] # rest) ip name (w, l) = (r, (w', l'))"
    by (metis surj_pair)
  from dns_first_lookup[OF run] run d
  have o: "\<exists>evs. snd (snd (updateDNSRecords (recording c) ([] # rest) ip name (w, l)))
              = l @ FindZone [] (fst (findZone c [] w)) # evs"
    by simp
  have q: "endsWith (pathname req) ''/update''
        \<and> (header req ''authorization'' \<noteq> None \<or> param req ''token'' \<noteq> None)
        \<and> parseBasicAuth req = Inr creds
        \<and> resolve_hostnames req = Some (h # hs) \<and> resolve_ips req \<noteq> None \<longrightarrow>
      (\<exists>rz evs. snd (snd (handleRequest (\<lambda>token. recording (new_client token)) req e (w0, [])))
                  = FindZone (domainName (username creds) h) rz # evs)"
    using request_first_lookup[of req creds h hs new_client e w0] by blast
  from h1 h2 i1 i2 n q d o show ?thesis by (intro conjI)
qed

theorem empty_parameter_resolution_witness:
  "param request_empty_domains ''domains'' = Some []
   \<and> resolve_hostnames request_empty_domains = Some [[]]
   \<and> resolve_ips request_empty_domains \<noteq> None
   \<and> fetch recording_client request_empty_domains example_env (example_store, [])
       = (error_response (zone_not_found []),
          (example_store, [FindZone [] (Inl (zone_not_found []))]))
   \<and> status (error_response (zone_not_found [])) = 404"
proof -
  have p: "param request_empty_domains ''domains'' = Some []" by code_simp
  have q: "\<not> truthy (param request_empty_domains ''hostname'')
           \<and> \<not> truthy (param request_empty_domains ''host'')"
    by code_simp
  have i: "truthy (param request_empty_domains ''ip'')" by code_simp
  have f: "fetch recording_client request_empty_domains example_env (example_store, [])
       = (error_response (zone_not_found []),
          (example_store, [FindZone [] (Inl (zone_not_found []))]))"
    by code_simp
  have s: "status (error_response (zone_not_found [])) = 404" by code_simp
  note inst = empty_parameter_resolution[where req = request_empty_domains
      and c = example_client and rest = "[]" and ip = "''1.2.3.4''" and name = None
      and w = example_store and l = "[]" and creds = "\<lparr>username = None, password = None\<rparr>"
      and h = "[]" and hs = "[]" and new_client = "new_CloudflareClient memory_sdk"
      and e = example_env and ?w0.0 = example_store]
  from inst[THEN conjunct2, THEN conjunct1] p q
  have h: "resolve_hostnames request_empty_domains = Some [[]]" by simp
  from inst[THEN conjunct2, THEN conjunct2, THEN conjunct1] i
  have "resolve_ips request_empty_domains \<noteq> None" by simp
  with h p f s show ?thesis by simp
qed

text \<open>
  The claim as stated fails: \<open>hostname=\<close> alone gives no list, not the list of the
  empty string, and the request is answered 400 although a hostname source is present.
\<close>

theorem empty_parameter_counterexample:
  "param request_empty_hostname ''hostname'' = Some []
   \<and> resolve_hostnames request_empty_hostname = None
   \<and> fetch recording_client request_empty_hostname example_env (example_store, [])
       = (error_response (BadRequestException
            ''You must specify both hostname(s) and IP address(es)''), (example_store, []))
   \<and> status (error_response (BadRequestException
            ''You must specify both hostname(s) and IP address(es)'')) = 400"
  by code_simp

end
